theory Spec2Isabelle
  imports Main "HOL-Library.Sublist"
begin

section \<open>Identifier parser: \<^verbatim>\<open>parse_pr_numbers\<close> of \<^verbatim>\<open>cli/pr.py\<close>\<close>

text \<open>
  Argument strings are lists of characters with code points below 256. On that range the
  regular-expression class \<^verbatim>\<open>\d\<close> of a Python \<^verbatim>\<open>str\<close> pattern is exactly
  \<^verbatim>\<open>0\<close> to \<^verbatim>\<open>9\<close>, the wildcard \<^verbatim>\<open>.\<close> is every character but the line feed, and
  the white space that \<^verbatim>\<open>int\<close> strips is the ten ASCII separators together with
  \<^verbatim>\<open>0x85\<close> and \<^verbatim>\<open>0xA0\<close>. Python integers are unbounded, so they are \<^typ>\<open>int\<close>; the
  interpreter's optional limit on the number of digits \<^verbatim>\<open>int\<close> converts is a runtime
  setting and is left out.
\<close>

definition is_digit :: "char \<Rightarrow> bool" where
  "is_digit c = (c \<in> set ''0123456789'')"

text \<open>\<^verbatim>\<open>int(s)\<close> for a string \<open>s\<close> of decimal digits.\<close>

definition dec :: "string \<Rightarrow> int" where
  "dec s = foldl (\<lambda>n c. 10 * n + (int (of_char c) - 48)) 0 s"

text \<open>
  \<^verbatim>\<open>re.match(r"(\d+)-(\d+)", arg)\<close>: the match is anchored at the start of the argument
  only. Both groups are greedy, and giving back digits can never help the next item to
  match, so the groups are the longest runs of digits.
\<close>

definition range_match :: "string \<Rightarrow> (string \<times> string) option" where
  "range_match arg =
     (let a = takeWhile is_digit arg in
      if a = [] then None
      else (case dropWhile is_digit arg of
              [] \<Rightarrow> None
            | c # t \<Rightarrow>
                if c \<noteq> CHR ''-'' then None
                else (let b = takeWhile is_digit t in
                      if b = [] then None else Some (a, b))))"

fun strip_prefix :: "string \<Rightarrow> string \<Rightarrow> string option" where
  "strip_prefix [] s = Some s"
| "strip_prefix (p # ps) [] = None"
| "strip_prefix (p # ps) (c # cs) = (if p = c then strip_prefix ps cs else None)"

text \<open>
  \<^verbatim>\<open>re.match(r"https://github.com/NixOS/nixpkgs/pull/(\d+)/?.*", arg)\<close>. The dot of
  \<^verbatim>\<open>github.com\<close> is not escaped in the source, so it stands for any character but the line
  feed. The tail \<^verbatim>\<open>/?.*\<close> matches the empty string, so it constrains nothing.
\<close>

definition url_match :: "string \<Rightarrow> string option" where
  "url_match arg =
     (case strip_prefix ''https://github'' arg of
        None \<Rightarrow> None
      | Some r \<Rightarrow>
          (case r of
             [] \<Rightarrow> None
           | c # r' \<Rightarrow>
               if c = CHR 0x0A then None
               else (case strip_prefix ''com/NixOS/nixpkgs/pull/'' r' of
                       None \<Rightarrow> None
                     | Some t \<Rightarrow>
                         (let g = takeWhile is_digit t in
                          if g = [] then None else Some g))))"

text \<open>
  \<^verbatim>\<open>int(arg)\<close> on an arbitrary string: surrounding white space is stripped, one sign is
  allowed, and single underscores may separate digits. \<open>None\<close> is \<^verbatim>\<open>ValueError\<close>.
\<close>

definition py_space :: "char \<Rightarrow> bool" where
  "py_space c = (of_char c \<in> set [9, 10, 11, 12, 13, 28, 29, 30, 31, 32, 133, 160 :: nat])"

definition py_strip :: "string \<Rightarrow> string" where
  "py_strip s = rev (dropWhile py_space (rev (dropWhile py_space s)))"

fun int_body :: "string \<Rightarrow> bool" where
  "int_body [] = False"
| "int_body [c] = is_digit c"
| "int_body (c # d # r) =
     (is_digit c \<and> (if d = CHR ''_'' then int_body r else int_body (d # r)))"

definition py_int :: "string \<Rightarrow> int option" where
  "py_int s =
     (let t = py_strip s;
          neg = (take 1 t = ''-'');
          b = (if take 1 t = ''-'' \<or> take 1 t = ''+'' then drop 1 t else t)
      in if int_body b
         then Some ((if neg then - 1 else 1) * dec (filter is_digit b))
         else None)"

text \<open>\<^verbatim>\<open>range(a, b)\<close> as a list: \<open>a, a + 1, \<dots>, b - 1\<close>, empty when \<open>b \<le> a\<close>.\<close>

definition py_range :: "int \<Rightarrow> int \<Rightarrow> int list" where
  "py_range a b = [a .. b - 1]"

text \<open>
  The result of the parser: the list it returns, or the warning it writes followed by
  \<^verbatim>\<open>sys.exit\<close> with the given status. In the \<^verbatim>\<open>except\<close> branch the variable \<^verbatim>\<open>m\<close>
  interpolated into the warning is the failed URL match, that is \<^verbatim>\<open>None\<close>.
\<close>

datatype parsed = Prs "int list" | UsageExit string int

fun parse_loop :: "int list \<Rightarrow> string list \<Rightarrow> parsed" where
  "parse_loop prs [] = Prs prs"
| "parse_loop prs (arg # rest) =
     (case range_match arg of
        Some (a, b) \<Rightarrow> parse_loop (prs @ py_range (dec a) (dec b)) rest
      | None \<Rightarrow>
          (case url_match arg of
             Some g \<Rightarrow> parse_loop (prs @ [dec g]) rest
           | None \<Rightarrow>
               (case py_int arg of
                  Some n \<Rightarrow> parse_loop (prs @ [n]) rest
                | None \<Rightarrow> UsageExit ''expected number or URL, got None'' 1)))"

definition parse_pr_numbers :: "string list \<Rightarrow> parsed" where
  "parse_pr_numbers number_args = parse_loop [] number_args"

section \<open>Configuration resolver: \<^verbatim>\<open>cli/config.py\<close>\<close>

text \<open>
  The values a parsed TOML document holds, and the compiled patterns the resolver stores.
  \<open>VOther n\<close> is a scalar of any other Python type (a float, a date), \<open>n\<close> being the name
  of that type. A dictionary is an association list read with \<^const>\<open>map_of\<close>: the first
  binding of a key is its value.
\<close>

datatype pyval =
    VStr string
  | VInt int
  | VBool bool
  | VOther string
  | VList "pyval list"
  | VDict "(string \<times> pyval) list"
  | VPattern string

type_synonym dict = "(string \<times> pyval) list"

datatype pytype = TyStr | TyInt | TyBool | TyList

datatype py_error =
    ValueError string
  | AssertionError
  | ArgumentTypeError string
  | TypeError string
  | AttributeError string

text \<open>
  A method that updates an object in place and may raise: \<open>Ok s\<close> is the object after a
  normal return, \<open>Raise e s\<close> the exception together with the object as the method left it.
\<close>

datatype 's result = Ok 's | Raise py_error 's

text \<open>\<^verbatim>\<open>isinstance\<close>: \<^verbatim>\<open>bool\<close> is a subclass of \<^verbatim>\<open>int\<close> in Python.\<close>

fun isinstance :: "pyval \<Rightarrow> pytype \<Rightarrow> bool" where
  "isinstance (VStr s) TyStr = True"
| "isinstance (VInt n) TyInt = True"
| "isinstance (VBool b) TyInt = True"
| "isinstance (VBool b) TyBool = True"
| "isinstance (VList xs) TyList = True"
| "isinstance v ty = False"

fun type_name :: "pyval \<Rightarrow> string" where
  "type_name (VStr s) = ''str''"
| "type_name (VInt n) = ''int''"
| "type_name (VBool b) = ''bool''"
| "type_name (VOther n) = n"
| "type_name (VList xs) = ''list''"
| "type_name (VDict d) = ''dict''"
| "type_name (VPattern p) = ''re.Pattern''"

fun pytype_name :: "pytype \<Rightarrow> string" where
  "pytype_name TyStr = ''str''"
| "pytype_name TyInt = ''int''"
| "pytype_name TyBool = ''bool''"
| "pytype_name TyList = ''list''"

definition class_repr :: "string \<Rightarrow> string" where
  "class_repr n = ''<class '' @ [CHR 0x27] @ n @ [CHR 0x27] @ ''>''"

definition check_type :: "string \<Rightarrow> pyval \<Rightarrow> pytype \<Rightarrow> py_error option" where
  "check_type option_name v expected_type =
     (if isinstance v expected_type then None
      else Some (ValueError
        (''Incorrect value for option '' @ [CHR 0x27] @ option_name @ [CHR 0x27] @ ''.''
         @ ''Expected '' @ [CHR 0x27] @ class_repr (pytype_name expected_type) @ [CHR 0x27]
         @ '' but got '' @ [CHR 0x27] @ class_repr (type_name v) @ [CHR 0x27] @ ''.'')))"

text \<open>
  \<^verbatim>\<open>regex_type\<close>. Which strings \<^verbatim>\<open>re.compile\<close> accepts is the regular-expression
  library's business: \<open>re_error s\<close> is \<open>None\<close> when it accepts \<open>s\<close> and the text of its
  \<^verbatim>\<open>re.error\<close> otherwise. A compiled pattern is returned as it is; any other value makes
  \<^verbatim>\<open>re.compile\<close> raise \<^verbatim>\<open>TypeError\<close>, which \<^verbatim>\<open>regex_type\<close> does not catch.
\<close>

fun regex_type :: "(string \<Rightarrow> string option) \<Rightarrow> pyval \<Rightarrow> py_error + pyval" where
  "regex_type re_error (VStr s) =
     (case re_error s of
        None \<Rightarrow> Inr (VPattern s)
      | Some e \<Rightarrow>
          Inl (ArgumentTypeError ([CHR 0x27] @ s @ [CHR 0x27] @ '' is not a valid regex: '' @ e)))"
| "regex_type re_error (VPattern p) = Inr (VPattern p)"
| "regex_type re_error v = Inl (TypeError ''first argument must be string or compiled pattern'')"

text \<open>The list comprehension over \<^verbatim>\<open>regex_type\<close>: left to right, the first exception ends it.\<close>

fun regex_types :: "(string \<Rightarrow> string option) \<Rightarrow> pyval list \<Rightarrow> py_error + pyval list" where
  "regex_types re_error [] = Inr []"
| "regex_types re_error (v # vs) =
     (case regex_type re_error v of
        Inl e \<Rightarrow> Inl e
      | Inr p \<Rightarrow>
          (case regex_types re_error vs of
             Inl e \<Rightarrow> Inl e
           | Inr ps \<Rightarrow> Inr (p # ps)))"

definition dict_get :: "dict \<Rightarrow> string \<Rightarrow> pyval \<Rightarrow> pyval" where
  "dict_get d k dflt = (case map_of d k of None \<Rightarrow> dflt | Some v \<Rightarrow> v)"

text \<open>The elements a \<^verbatim>\<open>for\<close> or \<^verbatim>\<open>all\<close> visits; only read after the list check.\<close>

fun elems :: "pyval \<Rightarrow> pyval list" where
  "elems (VList xs) = xs"
| "elems v = []"

definition is_member :: "pyval \<Rightarrow> string list \<Rightarrow> bool" where
  "is_member v vocabulary = (v \<in> set (map VStr vocabulary))"

subsection \<open>Statements of a method body\<close>

text \<open>
  A body is the list of its statements, run in order; the first statement that raises ends
  the method, and the object keeps every assignment made before.
\<close>

type_synonym 's stmt = "'s \<Rightarrow> 's result"

fun seq :: "'s stmt list \<Rightarrow> 's \<Rightarrow> 's result" where
  "seq [] s = Ok s"
| "seq (st # rest) s = (case st s of Ok s' \<Rightarrow> seq rest s' | Raise e s' \<Rightarrow> Raise e s')"

definition assign :: "('s \<Rightarrow> 's) \<Rightarrow> 's stmt" where
  "assign f s = Ok (f s)"

definition check :: "string \<Rightarrow> ('s \<Rightarrow> pyval) \<Rightarrow> pytype \<Rightarrow> 's stmt" where
  "check option_name field expected_type s =
     (case check_type option_name (field s) expected_type of
        None \<Rightarrow> Ok s
      | Some e \<Rightarrow> Raise e s)"

definition assert_stmt :: "('s \<Rightarrow> bool) \<Rightarrow> 's stmt" where
  "assert_stmt p s = (if p s then Ok s else Raise AssertionError s)"

subsection \<open>The sub-configurations\<close>

definition EVAL_VALUES :: "string list" where
  "EVAL_VALUES = [''ofborg'', ''local'']"

definition CHECKOUT_VALUES :: "string list" where
  "CHECKOUT_VALUES = [''merge'', ''commit'']"

definition ALLOW_VALUES :: "string list" where
  "ALLOW_VALUES = [''aliases'', ''ifd'', ''url-literals'']"

definition BUILD_GRAPH_VALUES :: "string list" where
  "BUILD_GRAPH_VALUES = [''nix'', ''nom'']"

text \<open>
  The fields hold \<^typ>\<open>pyval\<close>s, not values of their annotated types: every field is
  assigned before it is checked, so an object can hold a value of any type when a check
  raises. The two \<^verbatim>\<open>branch\<close> fields are told apart by a prefix.
\<close>

record PrConfig =
  eval :: pyval
  checkout :: pyval
  post_result :: pyval

record RevConfig =
  rev_branch :: pyval

record WipConfig =
  wip_branch :: pyval
  wip_staged :: pyval

definition PrConfig_new :: PrConfig where
  "PrConfig_new = \<lparr>eval = VStr ''ofborg'', checkout = VStr ''merge'', post_result = VBool False\<rparr>"

definition RevConfig_new :: RevConfig where
  "RevConfig_new = \<lparr>rev_branch = VStr ''master''\<rparr>"

definition WipConfig_new :: WipConfig where
  "WipConfig_new = \<lparr>wip_branch = VStr ''master'', wip_staged = VBool False\<rparr>"

definition PrConfig_update_from_dict :: "dict \<Rightarrow> PrConfig stmt" where
  "PrConfig_update_from_dict config_dict =
     seq [
       assign (\<lambda>self. self\<lparr>eval := dict_get config_dict ''eval'' (eval self)\<rparr>),
       assert_stmt (\<lambda>self. is_member (eval self) EVAL_VALUES),
       assign (\<lambda>self. self\<lparr>checkout := dict_get config_dict ''checkout'' (checkout self)\<rparr>),
       assert_stmt (\<lambda>self. is_member (checkout self) CHECKOUT_VALUES),
       assign (\<lambda>self. self\<lparr>post_result := dict_get config_dict ''post_result'' (post_result self)\<rparr>),
       check ''pr.post_result'' post_result TyBool]"

definition RevConfig_update_from_dict :: "dict \<Rightarrow> RevConfig stmt" where
  "RevConfig_update_from_dict config_dict =
     seq [
       assign (\<lambda>self. self\<lparr>rev_branch := dict_get config_dict ''branch'' (rev_branch self)\<rparr>),
       check ''rev.branch'' rev_branch TyStr]"

text \<open>The fallback of \<^verbatim>\<open>staged\<close> is \<^verbatim>\<open>self.branch\<close> in the source.\<close>

definition WipConfig_update_from_dict :: "dict \<Rightarrow> WipConfig stmt" where
  "WipConfig_update_from_dict config_dict =
     seq [
       assign (\<lambda>self. self\<lparr>wip_branch := dict_get config_dict ''branch'' (wip_branch self)\<rparr>),
       check ''wip.branch'' wip_branch TyStr,
       assign (\<lambda>self. self\<lparr>wip_staged := dict_get config_dict ''staged'' (wip_branch self)\<rparr>),
       check ''wip.staged'' wip_staged TyBool]"

subsection \<open>The top-level configuration\<close>

record Config =
  allow :: pyval
  build_args :: pyval
  no_shell :: pyval
  remote :: pyval
  run :: pyval
  sandbox :: pyval
  skipped_packages :: pyval
  skipped_package_regexes :: pyval
  systems :: pyval
  build_graph :: pyval
  print_result :: pyval
  extra_nixpkgs_config :: pyval
  num_parallel_evals :: pyval
  rev_config :: RevConfig
  pr_config :: PrConfig
  wip_config :: WipConfig

text \<open>
  The defaults of the class. \<^verbatim>\<open>nix_nom_tool\<close> is imported from a module outside these
  sources; its value is a parameter. The class body gives lists and sub-configuration
  objects directly as defaults of dataclass fields, which the \<^verbatim>\<open>dataclass\<close> decorator
  refuses when the class is created; the model takes the defaults as the class body
  states them, so that the methods can be studied.
\<close>

definition Config_new :: "string \<Rightarrow> Config" where
  "Config_new nix_nom_tool =
     \<lparr>allow = VList [],
      build_args = VStr [],
      no_shell = VBool False,
      remote = VStr ''https://github.com/NixOS/nixpkgs'',
      run = VStr [],
      sandbox = VBool False,
      skipped_packages = VList [],
      skipped_package_regexes = VList [],
      systems = VStr ''current'',
      build_graph = VStr nix_nom_tool,
      print_result = VBool False,
      extra_nixpkgs_config = VStr ''{ }'',
      num_parallel_evals = VInt 1,
      rev_config = RevConfig_new,
      pr_config = PrConfig_new,
      wip_config = WipConfig_new\<rparr>"

text \<open>\<^verbatim>\<open>value > 0\<close> for a value that passed the \<^verbatim>\<open>int\<close> check (\<^verbatim>\<open>True\<close> is 1).\<close>

fun positive :: "pyval \<Rightarrow> bool" where
  "positive (VInt n) = (0 < n)"
| "positive (VBool b) = b"
| "positive v = False"

text \<open>
  The local \<^verbatim>\<open>skipped_package_regexes\<close> is checked and compiled before the field is
  assigned: this is the one field that keeps its old value when its own check raises.
\<close>

definition set_skipped_package_regexes :: "(string \<Rightarrow> string option) \<Rightarrow> dict \<Rightarrow> Config stmt" where
  "set_skipped_package_regexes re_error config_dict self =
     (let local = dict_get config_dict ''skipped_package_regexes'' (skipped_package_regexes self) in
      case check_type ''skipped_package_regexes'' local TyList of
        Some e \<Rightarrow> Raise e self
      | None \<Rightarrow>
          (case regex_types re_error (elems local) of
             Inl e \<Rightarrow> Raise e self
           | Inr ps \<Rightarrow> Ok (self\<lparr>skipped_package_regexes := VList ps\<rparr>)))"

text \<open>
  \<^verbatim>\<open>self.sub.update_from_dict(config_dict=config_dict.get(key, {}))\<close>: the sub-object is
  updated in place, so it keeps its assignments when the call raises. A value that is not
  a table has no \<^verbatim>\<open>get\<close>.
\<close>

definition update_sub ::
  "('c \<Rightarrow> 's) \<Rightarrow> ('s \<Rightarrow> 'c \<Rightarrow> 'c) \<Rightarrow> (dict \<Rightarrow> 's stmt) \<Rightarrow> pyval \<Rightarrow> 'c stmt" where
  "update_sub sub put update_from_dict v self =
     (case v of
        VDict d \<Rightarrow>
          (case update_from_dict d (sub self) of
             Ok r \<Rightarrow> Ok (put r self)
           | Raise e r \<Rightarrow> Raise e (put r self))
      | _ \<Rightarrow>
          Raise (AttributeError
            ([CHR 0x27] @ type_name v @ [CHR 0x27] @ '' object has no attribute ''
             @ [CHR 0x27] @ ''get'' @ [CHR 0x27])) self)"

definition Config_update_from_dict :: "(string \<Rightarrow> string option) \<Rightarrow> dict \<Rightarrow> Config stmt" where
  "Config_update_from_dict re_error config_dict =
     seq [
       assign (\<lambda>self. self\<lparr>allow := dict_get config_dict ''allow'' (allow self)\<rparr>),
       check ''allow'' allow TyList,
       assert_stmt (\<lambda>self. list_all (\<lambda>v. is_member v ALLOW_VALUES) (elems (allow self))),
       assign (\<lambda>self. self\<lparr>build_args := dict_get config_dict ''build_args'' (build_args self)\<rparr>),
       check ''build_args'' build_args TyStr,
       assign (\<lambda>self. self\<lparr>no_shell := dict_get config_dict ''no_shell'' (no_shell self)\<rparr>),
       check ''no_shell'' no_shell TyBool,
       assign (\<lambda>self. self\<lparr>remote := dict_get config_dict ''remote'' (remote self)\<rparr>),
       check ''remote'' remote TyStr,
       assign (\<lambda>self. self\<lparr>run := dict_get config_dict ''run'' (run self)\<rparr>),
       check ''run'' run TyStr,
       assign (\<lambda>self. self\<lparr>sandbox := dict_get config_dict ''sandbox'' (sandbox self)\<rparr>),
       check ''sandbox'' sandbox TyBool,
       assign (\<lambda>self. self\<lparr>skipped_packages :=
                 dict_get config_dict ''skipped_packages'' (skipped_packages self)\<rparr>),
       check ''skipped_packages'' skipped_packages TyList,
       set_skipped_package_regexes re_error config_dict,
       assign (\<lambda>self. self\<lparr>systems := dict_get config_dict ''systems'' (systems self)\<rparr>),
       assert_stmt (\<lambda>self. isinstance (systems self) TyStr \<or> isinstance (systems self) TyList),
       assert_stmt (\<lambda>self. if isinstance (systems self) TyList
                            then list_all (\<lambda>system. isinstance system TyStr) (elems (systems self))
                            else True),
       assign (\<lambda>self. self\<lparr>build_graph := dict_get config_dict ''build_graph'' (build_graph self)\<rparr>),
       check ''build_graph'' build_graph TyStr,
       assert_stmt (\<lambda>self. is_member (build_graph self) BUILD_GRAPH_VALUES),
       assign (\<lambda>self. self\<lparr>print_result := dict_get config_dict ''print_result'' (print_result self)\<rparr>),
       check ''print_result'' print_result TyBool,
       assign (\<lambda>self. self\<lparr>extra_nixpkgs_config :=
                 dict_get config_dict ''extra_nixpkgs_config'' (extra_nixpkgs_config self)\<rparr>),
       check ''extra_nixpkgs_config'' extra_nixpkgs_config TyStr,
       assign (\<lambda>self. self\<lparr>num_parallel_evals :=
                 dict_get config_dict ''num_parallel_evals'' (num_parallel_evals self)\<rparr>),
       check ''num_parallel_evals'' num_parallel_evals TyInt,
       assert_stmt (\<lambda>self. positive (num_parallel_evals self)),
       update_sub rev_config (\<lambda>r self. self\<lparr>rev_config := r\<rparr>) RevConfig_update_from_dict
         (dict_get config_dict ''rev'' (VDict [])),
       update_sub wip_config (\<lambda>r self. self\<lparr>wip_config := r\<rparr>) WipConfig_update_from_dict
         (dict_get config_dict ''wip'' (VDict [])),
       update_sub pr_config (\<lambda>r self. self\<lparr>pr_config := r\<rparr>) PrConfig_update_from_dict
         (dict_get config_dict ''pr'' (VDict []))]"

text \<open>The fields of the \<^verbatim>\<open>argparse\<close> namespace that decide the control flow of the command.
  \<open>args_system\<close> is empty when the deprecated option is not given.\<close>

record Namespace =
  number :: "string list"
  args_no_shell :: bool
  args_post_result :: bool
  args_print_result :: bool
  args_system :: string

text \<open>
  \<^verbatim>\<open>update_from_args\<close> is declared with the single parameter \<^verbatim>\<open>args\<close> and no
  \<^verbatim>\<open>self\<close>. The call \<^verbatim>\<open>config.update_from_args(args)\<close> of \<^verbatim>\<open>pr_command\<close> passes the
  object and the namespace to it, two positional arguments for one parameter, and Python
  raises \<^verbatim>\<open>TypeError\<close> before the body runs. The body would call \<^verbatim>\<open>update_from_dict\<close>
  with the empty dictionary: it does not read \<^verbatim>\<open>args\<close> either.
\<close>

definition Config_update_from_args :: "Namespace \<Rightarrow> Config stmt" where
  "Config_update_from_args args self =
     Raise (TypeError
       ''Config.update_from_args() takes 1 positional argument but 2 were given'') self"

text \<open>
  \<^verbatim>\<open>read_config\<close>: \<open>config_file\<close> is \<open>None\<close> when the file does not exist, and the parsed
  document otherwise.
\<close>

definition Config_read_config :: "(string \<Rightarrow> string option) \<Rightarrow> dict option \<Rightarrow> Config stmt" where
  "Config_read_config re_error config_file self =
     (case config_file of
        None \<Rightarrow> Ok self
      | Some file_config \<Rightarrow> Config_update_from_dict re_error file_config self)"

text \<open>
  The configuration \<^verbatim>\<open>pr_command\<close> resolves (its first statements): the defaults, then
  the file, then the command line.
\<close>

definition resolve_config ::
  "string \<Rightarrow> (string \<Rightarrow> string option) \<Rightarrow> dict option \<Rightarrow> Namespace \<Rightarrow> Config result" where
  "resolve_config nix_nom_tool re_error config_file args =
     seq [Config_read_config re_error config_file, Config_update_from_args args]
       (Config_new nix_nom_tool)"

section \<open>The PR command: \<^verbatim>\<open>pr_command\<close> of \<^verbatim>\<open>cli/pr.py\<close>\<close>

text \<open>\<^verbatim>\<open>str(n)\<close> for an integer, as the f-strings of the command format it.\<close>

fun digits_of :: "nat \<Rightarrow> string" where
  "digits_of n =
     (if n < 10 then [''0123456789'' ! n]
      else digits_of (n div 10) @ [''0123456789'' ! (n mod 10)])"

declare digits_of.simps [simp del]

definition str_int :: "int \<Rightarrow> string" where
  "str_int i = (if i < 0 then ''-'' @ digits_of (nat (- i)) else digits_of (nat i))"

text \<open>
  \<^verbatim>\<open>Review\<close>, \<^verbatim>\<open>Builddir\<close> and \<^verbatim>\<open>Buildenv\<close> are classes of modules outside these
  sources. What they do for one identifier is a parameter of the model: the constructor
  \<^verbatim>\<open>Review(...)\<close> raises \<^verbatim>\<open>NixpkgsReviewError\<close>, or it returns and \<^verbatim>\<open>build_pr\<close>
  raises it, or \<^verbatim>\<open>build_pr\<close> returns the attributes to build. The string is the text of
  the error. Acquiring and releasing a directory or the environment is taken not to raise.
\<close>

datatype 'a pipeline = ReviewRaises string | BuildPrRaises string | Built 'a

text \<open>
  \<open>start_review w r attrs path pr post_result print_result\<close> is the result of
  \<^verbatim>\<open>start_review\<close> called on the \<^verbatim>\<open>Review\<close> object that was constructed for identifier
  \<open>r\<close>; \<open>builddir_path w name\<close> is the path of the directory \<^verbatim>\<open>Builddir(name)\<close> creates.
\<close>

record 'a world =
  pipeline :: "int \<Rightarrow> 'a pipeline"
  start_review :: "int \<Rightarrow> 'a \<Rightarrow> string \<Rightarrow> int \<Rightarrow> bool \<Rightarrow> bool \<Rightarrow> bool"
  builddir_path :: "string \<Rightarrow> string"

text \<open>What a run does, in order.\<close>

datatype event =
    EnterBuildenv
  | ExitBuildenv
  | EnterBuilddir string
  | ExitBuilddir string
  | Warn string
  | StartReview int

text \<open>How a run ends: \<^verbatim>\<open>sys.exit\<close>, an exception nobody catches, or the returned path.\<close>

datatype ending = SystemExit int | Uncaught py_error | Returned string

text \<open>
  The local variables of the command inside the \<^verbatim>\<open>with\<close> statement. \<open>review\<close> is the
  identifier whose \<^verbatim>\<open>Review\<close> object the variable holds, \<open>builddir\<close> the name of the
  session it holds, \<open>stack\<close> the callbacks of the \<^verbatim>\<open>ExitStack\<close>, the latest first.
\<close>

record 'a locals =
  review :: "int option"
  builddir :: "string option"
  contexts :: "(int \<times> string \<times> 'a) list"
  stack :: "string list"
  log :: "event list"

definition session_name :: "int \<Rightarrow> string" where
  "session_name pr = ''pr-'' @ str_int pr"

definition failed_to_build :: "int \<Rightarrow> string \<Rightarrow> string" where
  "failed_to_build pr e =
     ''https://github.com/NixOS/nixpkgs/pull/'' @ str_int pr @ '' failed to build: '' @ e"

text \<open>
  One iteration of the \<^verbatim>\<open>for\<close> loop. The session is entered on the stack before the
  \<^verbatim>\<open>try\<close>; \<^verbatim>\<open>review\<close> is assigned as soon as the constructor returns, before
  \<^verbatim>\<open>build_pr\<close> is called.
\<close>

definition loop_body :: "'a world \<Rightarrow> int \<Rightarrow> 'a locals \<Rightarrow> 'a locals" where
  "loop_body w pr l =
     (let name = session_name pr;
          l1 = l\<lparr>builddir := Some name, stack := name # stack l,
                 log := log l @ [EnterBuilddir name]\<rparr>
      in case pipeline w pr of
           ReviewRaises e \<Rightarrow> l1\<lparr>log := log l1 @ [Warn (failed_to_build pr e)]\<rparr>
         | BuildPrRaises e \<Rightarrow>
             l1\<lparr>review := Some pr, log := log l1 @ [Warn (failed_to_build pr e)]\<rparr>
         | Built attrs \<Rightarrow>
             l1\<lparr>review := Some pr,
                contexts := contexts l1 @ [(pr, builddir_path w name, attrs)]\<rparr>)"

fun for_prs :: "'a world \<Rightarrow> int list \<Rightarrow> 'a locals \<Rightarrow> 'a locals" where
  "for_prs w [] l = l"
| "for_prs w (pr # prs) l = for_prs w prs (loop_body w pr l)"

text \<open>
  \<^verbatim>\<open>all(review.start_review(...) for pr, path, attrs in contexts)\<close>: the generator is
  consumed up to the first review that fails.
\<close>

fun all_reviews ::
  "'a world \<Rightarrow> int \<Rightarrow> bool \<Rightarrow> bool \<Rightarrow> (int \<times> string \<times> 'a) list \<Rightarrow> event list \<times> bool" where
  "all_reviews w r post prnt [] = ([], True)"
| "all_reviews w r post prnt ((pr, path, attrs) # cs) =
     (if start_review w r attrs path pr post prnt
      then (let (evs, b) = all_reviews w r post prnt cs in (StartReview pr # evs, b))
      else ([StartReview pr], False))"

text \<open>
  The body of the \<^verbatim>\<open>with\<close> statement: the locals when it is left, and the exception
  that leaves it, if any.
\<close>

definition with_body :: "'a world \<Rightarrow> Namespace \<Rightarrow> int list \<Rightarrow> 'a locals \<times> ending option" where
  "with_body w args prs =
     (let l = for_prs w prs
                \<lparr>review = None, builddir = None, contexts = [], stack = [], log = []\<rparr>
      in case review l of
           None \<Rightarrow> (l, Some (Uncaught AssertionError))
         | Some r \<Rightarrow>
             (let (evs, all_succeeded) =
                    all_reviews w r (args_post_result args) (args_print_result args) (contexts l);
                  l' = l\<lparr>log := log l @ evs\<rparr>
              in if args_no_shell args
                 then (l', Some (SystemExit (if all_succeeded then 0 else 1)))
                 else if length (contexts l') \<noteq> length prs
                 then (l', Some (SystemExit 1))
                 else (l', None)))"

text \<open>
  The statements of \<^verbatim>\<open>pr_command\<close> after the configuration is resolved and the
  identifiers are parsed. However the body is left, the \<^verbatim>\<open>ExitStack\<close> runs its callbacks,
  the latest first, and then the \<^verbatim>\<open>Buildenv\<close> is left; \<^verbatim>\<open>ensure_github_token\<close> and
  \<^verbatim>\<open>AllowedFeatures\<close> are outside these sources and are taken to return.
\<close>

definition pr_reviews :: "'a world \<Rightarrow> Namespace \<Rightarrow> int list \<Rightarrow> event list \<times> ending" where
  "pr_reviews w args prs =
     (let deprecated =
            (if args_system args \<noteq> []
             then [Warn ''Warning: The `--system` is deprecated. Use `--systems` instead.'']
             else []);
          (l, raised) = with_body w args prs;
          trace = deprecated @ [EnterBuildenv] @ log l @ map ExitBuilddir (stack l) @ [ExitBuildenv]
      in case raised of
           Some e \<Rightarrow> (trace, e)
         | None \<Rightarrow>
             (case builddir l of
                None \<Rightarrow> (trace, Uncaught AssertionError)
              | Some name \<Rightarrow> (trace, Returned (builddir_path w name))))"

text \<open>
  The whole command. The call of \<^const>\<open>Config_update_from_args\<close> raises on every input, so
  no run of the command as written gets past it; the properties of the reviews are
  stated on \<^const>\<open>pr_reviews\<close>.
\<close>

definition pr_command ::
  "string \<Rightarrow> (string \<Rightarrow> string option) \<Rightarrow> dict option \<Rightarrow> 'a world \<Rightarrow> Namespace
     \<Rightarrow> event list \<times> ending" where
  "pr_command nix_nom_tool re_error config_file w args =
     (case Config_read_config re_error config_file (Config_new nix_nom_tool) of
        Raise e c \<Rightarrow> ([], Uncaught e)
      | Ok config \<Rightarrow>
          (case parse_pr_numbers (number args) of
             UsageExit msg status \<Rightarrow> ([Warn msg], SystemExit status)
           | Prs prs \<Rightarrow>
               (case Config_update_from_args args config of
                  Raise e c \<Rightarrow> ([], Uncaught e)
                | Ok config' \<Rightarrow> pr_reviews w args prs)))"

section \<open>Reference definitions for the properties\<close>

subsection \<open>What the loop is expected to leave behind\<close>

text \<open>
  These definitions are not part of the command: they say, from the pipelines alone, which
  identifiers count as recorded and which got a \<^verbatim>\<open>Review\<close> object, and the theorems
  below compare the command with them.
\<close>

fun built :: "'a pipeline \<Rightarrow> 'a option" where
  "built (Built attrs) = Some attrs"
| "built p = None"



definition recorded :: "'a world \<Rightarrow> int list \<Rightarrow> (int \<times> string \<times> 'a) list" where
  "recorded w prs =
     List.map_filter
       (\<lambda>pr. map_option (\<lambda>attrs. (pr, builddir_path w (session_name pr), attrs))
                (built (pipeline w pr)))
       prs"


fun is_scope :: "event \<Rightarrow> bool" where
  "is_scope EnterBuildenv = True"
| "is_scope ExitBuildenv = True"
| "is_scope (EnterBuilddir n) = True"
| "is_scope (ExitBuilddir n) = True"
| "is_scope (Warn m) = False"
| "is_scope (StartReview pr) = False"


subsection \<open>Invalid values of a configuration document\<close>

text \<open>
  What counts as an invalid value in a document, said without running the resolver: a
  value of the wrong type for its field, an enumerated field outside its vocabulary, a
  parallelism count that is not positive, or a pattern the regular-expression library
  rejects. The type test is Python's \<^verbatim>\<open>isinstance\<close>, for which a boolean is an integer.
\<close>

definition wrong_type :: "dict \<Rightarrow> string \<Rightarrow> pytype \<Rightarrow> bool" where
  "wrong_type d k ty = (case map_of d k of None \<Rightarrow> False | Some v \<Rightarrow> \<not> isinstance v ty)"

definition out_of_vocabulary :: "dict \<Rightarrow> string \<Rightarrow> string list \<Rightarrow> bool" where
  "out_of_vocabulary d k vocabulary =
     (case map_of d k of None \<Rightarrow> False | Some v \<Rightarrow> \<not> is_member v vocabulary)"

fun is_table :: "pyval \<Rightarrow> bool" where
  "is_table (VDict t) = True"
| "is_table v = False"

definition not_a_table :: "dict \<Rightarrow> string \<Rightarrow> bool" where
  "not_a_table d k = (case map_of d k of None \<Rightarrow> False | Some v \<Rightarrow> \<not> is_table v)"

text \<open>The sub-table under a key; empty when the key is absent.\<close>

definition table :: "dict \<Rightarrow> string \<Rightarrow> dict" where
  "table d k = (case map_of d k of Some (VDict t) \<Rightarrow> t | _ \<Rightarrow> [])"

fun rejected_pattern :: "(string \<Rightarrow> string option) \<Rightarrow> pyval \<Rightarrow> bool" where
  "rejected_pattern re_error (VStr s) = (re_error s \<noteq> None)"
| "rejected_pattern re_error v = False"

fun not_positive :: "pyval \<Rightarrow> bool" where
  "not_positive (VInt n) = (n \<le> 0)"
| "not_positive (VBool b) = (\<not> b)"
| "not_positive v = False"

definition invalid_value :: "(string \<Rightarrow> string option) \<Rightarrow> dict \<Rightarrow> bool" where
  "invalid_value re_error d =
     (wrong_type d ''allow'' TyList
      \<or> wrong_type d ''build_args'' TyStr
      \<or> wrong_type d ''no_shell'' TyBool
      \<or> wrong_type d ''remote'' TyStr
      \<or> wrong_type d ''run'' TyStr
      \<or> wrong_type d ''sandbox'' TyBool
      \<or> wrong_type d ''skipped_packages'' TyList
      \<or> wrong_type d ''skipped_package_regexes'' TyList
      \<or> (case map_of d ''systems'' of
            None \<Rightarrow> False
          | Some v \<Rightarrow> \<not> (isinstance v TyStr
                         \<or> isinstance v TyList \<and> list_all (\<lambda>x. isinstance x TyStr) (elems v)))
      \<or> wrong_type d ''build_graph'' TyStr
      \<or> wrong_type d ''print_result'' TyBool
      \<or> wrong_type d ''extra_nixpkgs_config'' TyStr
      \<or> wrong_type d ''num_parallel_evals'' TyInt
      \<or> not_a_table d ''rev'' \<or> not_a_table d ''wip'' \<or> not_a_table d ''pr''
      \<or> wrong_type (table d ''rev'') ''branch'' TyStr
      \<or> wrong_type (table d ''wip'') ''branch'' TyStr
      \<or> wrong_type (table d ''wip'') ''staged'' TyBool
      \<or> wrong_type (table d ''pr'') ''post_result'' TyBool
      \<or> (case map_of d ''allow'' of
            None \<Rightarrow> False
          | Some v \<Rightarrow> list_ex (\<lambda>x. \<not> is_member x ALLOW_VALUES) (elems v))
      \<or> out_of_vocabulary d ''build_graph'' BUILD_GRAPH_VALUES
      \<or> out_of_vocabulary (table d ''pr'') ''eval'' EVAL_VALUES
      \<or> out_of_vocabulary (table d ''pr'') ''checkout'' CHECKOUT_VALUES
      \<or> (case map_of d ''num_parallel_evals'' of None \<Rightarrow> False | Some v \<Rightarrow> not_positive v)
      \<or> (case map_of d ''skipped_package_regexes'' of
            None \<Rightarrow> False
          | Some v \<Rightarrow> list_ex (rejected_pattern re_error) (elems v)))"

section \<open>Properties of the identifier parser\<close>















text \<open>
  Claim C7. The argument \<^verbatim>\<open>abc\<close> has none of the three forms. The parser writes a warning
  and exits with status 1, but the warning is the fixed text ending in \<^verbatim>\<open>None\<close>: it
  interpolates the failed match \<^verbatim>\<open>m\<close>, not the argument, which does not occur in it.
\<close>

theorem parse_pr_numbers_warning_text:
  "parse_pr_numbers [''abc''] = UsageExit ''expected number or URL, got None'' 1
   \<and> \<not> sublist ''abc'' ''expected number or URL, got None''"
  by code_simp

section \<open>Properties of the PR command\<close>

text \<open>
  As written, the command ends before its reviews on every input: with the error of the
  configuration file, with the usage exit of the parser, or with the \<^verbatim>\<open>TypeError\<close> of
  \<^verbatim>\<open>update_from_args\<close>. The properties below are about the statements that follow.
\<close>

lemma pr_command_stops_before_reviews:
  "pr_command nix_nom_tool re_error config_file w args =
     (case Config_read_config re_error config_file (Config_new nix_nom_tool) of
        Raise e c \<Rightarrow> ([], Uncaught e)
      | Ok config \<Rightarrow>
          (case parse_pr_numbers (number args) of
             UsageExit msg status \<Rightarrow> ([Warn msg], SystemExit status)
           | Prs prs \<Rightarrow>
               ([], Uncaught (TypeError
                  ''Config.update_from_args() takes 1 positional argument but 2 were given''))))"
  by (simp add: pr_command_def Config_update_from_args_def split: result.splits parsed.splits)

lemma loop_body_contexts:
  "contexts (loop_body w pr l) = contexts l @ recorded w [pr]"
  by (cases "pipeline w pr") (simp_all add: loop_body_def recorded_def List.map_filter_simps Let_def)

lemma recorded_Cons: "recorded w (pr # prs) = recorded w [pr] @ recorded w prs"
  by (simp add: recorded_def List.map_filter_simps split: option.splits)

lemma for_prs_contexts: "contexts (for_prs w prs l) = contexts l @ recorded w prs"
proof (induction prs arbitrary: l)
  case Nil
  show ?case by (simp add: recorded_def List.map_filter_simps)
next
  case (Cons pr prs)
  show ?case
    by (simp add: Cons.IH loop_body_contexts recorded_Cons[of w pr prs])
qed

lemma loop_body_stack: "stack (loop_body w pr l) = session_name pr # stack l"
  by (cases "pipeline w pr") (simp_all add: loop_body_def Let_def)

lemma for_prs_stack: "stack (for_prs w prs l) = rev (map session_name prs) @ stack l"
  by (induction prs arbitrary: l) (simp_all add: loop_body_stack)

lemma loop_body_builddir: "builddir (loop_body w pr l) = Some (session_name pr)"
  by (cases "pipeline w pr") (simp_all add: loop_body_def Let_def)

lemma for_prs_builddir:
  "builddir (for_prs w prs l) = (if prs = [] then builddir l else Some (session_name (last prs)))"
  by (induction prs arbitrary: l) (simp_all add: loop_body_builddir)



lemma loop_body_log:
  "\<exists>evs. log (loop_body w pr l) = log l @ EnterBuilddir (session_name pr) # evs
         \<and> filter is_scope evs = []"
  by (cases "pipeline w pr") (simp_all add: loop_body_def Let_def)

lemma for_prs_log:
  "\<exists>evs. log (for_prs w prs l) = log l @ evs
         \<and> filter is_scope evs = map (\<lambda>pr. EnterBuilddir (session_name pr)) prs"
proof (induction prs arbitrary: l)
  case Nil
  show ?case by simp
next
  case (Cons pr prs)
  obtain e1 where e1: "log (loop_body w pr l) = log l @ EnterBuilddir (session_name pr) # e1"
    "filter is_scope e1 = []"
    using loop_body_log[of w pr l] by blast
  obtain e2 where e2: "log (for_prs w prs (loop_body w pr l)) = log (loop_body w pr l) @ e2"
    "filter is_scope e2 = map (\<lambda>pr. EnterBuilddir (session_name pr)) prs"
    using Cons.IH[of "loop_body w pr l"] by blast
  show ?case
    by (rule exI[of _ "EnterBuilddir (session_name pr) # e1 @ e2"]) (simp add: e1 e2)
qed


lemma all_reviews_fst: "filter is_scope (fst (all_reviews w r post prnt cs)) = []"
proof (induction cs)
  case Nil
  show ?case by simp
next
  case (Cons c cs)
  obtain pr path attrs where c: "c = (pr, path, attrs)" by (cases c) auto
  show ?case
    using Cons.IH by (simp add: c case_prod_beta)
qed




lemma with_body_locals:
  "\<exists>evs. log (fst (with_body w args prs)) = evs
         \<and> filter is_scope evs = map (\<lambda>pr. EnterBuilddir (session_name pr)) prs"
  "stack (fst (with_body w args prs)) = rev (map session_name prs)"
  "contexts (fst (with_body w args prs)) = recorded w prs"
  "builddir (fst (with_body w args prs)) = (if prs = [] then None else Some (session_name (last prs)))"
proof -
  let ?l = "for_prs w prs \<lparr>review = None, builddir = None, contexts = [], stack = [], log = []\<rparr>"
  obtain evs where evs: "log ?l = evs"
    "filter is_scope evs = map (\<lambda>pr. EnterBuilddir (session_name pr)) prs"
    using for_prs_log[of w prs "\<lparr>review = None, builddir = None, contexts = [], stack = [], log = []\<rparr>"]
    by auto
  show "\<exists>evs. log (fst (with_body w args prs)) = evs
         \<and> filter is_scope evs = map (\<lambda>pr. EnterBuilddir (session_name pr)) prs"
    by (cases "review ?l")
       (simp_all add: with_body_def Let_def case_prod_beta evs all_reviews_fst)
  show "stack (fst (with_body w args prs)) = rev (map session_name prs)"
    by (cases "review ?l")
       (simp_all add: with_body_def Let_def case_prod_beta for_prs_stack)
  show "contexts (fst (with_body w args prs)) = recorded w prs"
    by (cases "review ?l")
       (simp_all add: with_body_def Let_def case_prod_beta for_prs_contexts)
  show "builddir (fst (with_body w args prs)) = (if prs = [] then None else Some (session_name (last prs)))"
    by (cases "review ?l")
       (simp_all add: with_body_def Let_def case_prod_beta for_prs_builddir)
qed



text \<open>
  Claim C9. Whatever the pipelines do and however the command ends, the trace of a run
  is: nothing that enters or leaves a scope; then the build environment is entered; then
  a body in which one session is entered for every identifier, in the order of the
  identifiers, and none is left; then every session is left, the latest first; and last
  the build environment is left.
\<close>

theorem sessions_released_in_reverse:
  "\<exists>pre body.
     fst (pr_reviews w args prs) =
       pre @ [EnterBuildenv] @ body @ map ExitBuilddir (rev (map session_name prs)) @ [ExitBuildenv]
     \<and> filter is_scope pre = []
     \<and> filter is_scope body = map (\<lambda>pr. EnterBuilddir (session_name pr)) prs"
proof -
  obtain l raised where wb: "with_body w args prs = (l, raised)" by (cases "with_body w args prs")
  have l: "l = fst (with_body w args prs)" by (simp add: wb)
  have s: "stack l = rev (map session_name prs)"
    unfolding l by (rule with_body_locals(2))
  have g: "filter is_scope (log l) = map (\<lambda>pr. EnterBuilddir (session_name pr)) prs"
    unfolding l using with_body_locals(1)[of w args prs] by simp
  let ?pre = "if args_system args \<noteq> []
             then [Warn ''Warning: The `--system` is deprecated. Use `--systems` instead.'']
             else []"
  have t: "fst (pr_reviews w args prs) =
       ?pre @ [EnterBuildenv] @ log l @ map ExitBuilddir (rev (map session_name prs)) @ [ExitBuildenv]"
    by (simp add: pr_reviews_def wb Let_def s split: option.splits)
  have p: "filter is_scope ?pre = []" by simp
  show ?thesis
    using t p g by blast
qed

lemma example_trace:
  "fst (pr_reviews
     \<lparr>pipeline = (\<lambda>pr. if pr = 2 then BuildPrRaises ''checkout failed'' else Built ''hello''),
      start_review = (\<lambda>r attrs path pr post prnt. True),
      builddir_path = (\<lambda>name. ''/tmp/'' @ name)\<rparr>
     \<lparr>number = [''1-4''], args_no_shell = False, args_post_result = False,
      args_print_result = False, args_system = []\<rparr>
     [1, 2, 3])
   = [EnterBuildenv,
      EnterBuilddir ''pr-1'',
      EnterBuilddir ''pr-2'',
      Warn ''https://github.com/NixOS/nixpkgs/pull/2 failed to build: checkout failed'',
      EnterBuilddir ''pr-3'',
      StartReview 1, StartReview 3,
      ExitBuilddir ''pr-3'', ExitBuilddir ''pr-2'', ExitBuilddir ''pr-1'',
      ExitBuildenv]"
  by code_simp

theorem sessions_released_in_reverse_witness:
  "\<exists>pre body.
     fst (pr_reviews
       \<lparr>pipeline = (\<lambda>pr. if pr = 2 then BuildPrRaises ''checkout failed'' else Built ''hello''),
        start_review = (\<lambda>r attrs path pr post prnt. True),
        builddir_path = (\<lambda>name. ''/tmp/'' @ name)\<rparr>
       \<lparr>number = [''1-4''], args_no_shell = True, args_post_result = False,
        args_print_result = False, args_system = ''x86_64-linux''\<rparr>
       [1, 2, 3])
     = pre @ [EnterBuildenv] @ body
         @ [ExitBuilddir ''pr-3'', ExitBuilddir ''pr-2'', ExitBuilddir ''pr-1''] @ [ExitBuildenv]
     \<and> filter is_scope pre = []
     \<and> filter is_scope body = [EnterBuilddir ''pr-1'', EnterBuilddir ''pr-2'', EnterBuilddir ''pr-3'']"
proof -
  have n: "map session_name [1, 2, 3] = [''pr-1'', ''pr-2'', ''pr-3'']"
    by code_simp
  have m: "map (\<lambda>pr. EnterBuilddir (session_name pr)) [1, 2, 3]
             = [EnterBuilddir ''pr-1'', EnterBuilddir ''pr-2'', EnterBuilddir ''pr-3'']"
    by code_simp
  show ?thesis
    using sessions_released_in_reverse
      [of "\<lparr>pipeline = (\<lambda>pr. if pr = 2 then BuildPrRaises ''checkout failed'' else Built ''hello''),
            start_review = (\<lambda>r attrs path pr post prnt. True),
            builddir_path = (\<lambda>name. ''/tmp/'' @ name)\<rparr>"
          "\<lparr>number = [''1-4''], args_no_shell = True, args_post_result = False,
            args_print_result = False, args_system = ''x86_64-linux''\<rparr>"
          "[1, 2, 3]"]
    unfolding n m by simp
qed








section \<open>Properties of the configuration resolver\<close>

text \<open>When a statement, and a body, returns normally.\<close>

lemma seq_Cons_Ok:
  "(seq (st # rest) s = Ok s') = (\<exists>s1. st s = Ok s1 \<and> seq rest s1 = Ok s')"
  by (cases "st s") simp_all

lemma seq_Nil_Ok: "(seq [] s = Ok s') = (s' = s)"
  by auto

lemma assign_Ok: "(assign f s = Ok s1) = (s1 = f s)"
  by (auto simp: assign_def)

lemma check_Ok: "(check n fld ty s = Ok s1) = (s1 = s \<and> isinstance (fld s) ty)"
  by (auto simp: check_def check_type_def)

lemma assert_Ok: "(assert_stmt p s = Ok s1) = (s1 = s \<and> p s)"
  by (auto simp: assert_stmt_def)

lemma set_skipped_Ok:
  "(set_skipped_package_regexes re d s = Ok s1) =
     (isinstance (dict_get d ''skipped_package_regexes'' (skipped_package_regexes s)) TyList
        \<and> \<not> isl (regex_types re (elems (dict_get d ''skipped_package_regexes'' (skipped_package_regexes s))))
        \<and> s1 = s\<lparr>skipped_package_regexes :=
               VList (projr (regex_types re
                 (elems (dict_get d ''skipped_package_regexes'' (skipped_package_regexes s)))))\<rparr>)"
  by (auto simp: set_skipped_package_regexes_def check_type_def Let_def split: sum.splits)

lemma update_sub_Ok:
  "(update_sub sub put upd v s = Ok s1) =
     (\<exists>t r. v = VDict t \<and> upd t (sub s) = Ok r \<and> s1 = put r s)"
  by (cases v; cases "upd (case v of VDict t \<Rightarrow> t) (sub s)")
     (auto simp: update_sub_def split: result.splits)

lemmas stmt_Ok = seq_Cons_Ok seq_Nil_Ok assign_Ok check_Ok assert_Ok

lemma RevConfig_Ok:
  "(RevConfig_update_from_dict d r = Ok r') =
     (isinstance (dict_get d ''branch'' (rev_branch r)) TyStr
      \<and> r' = r\<lparr>rev_branch := dict_get d ''branch'' (rev_branch r)\<rparr>)"
  by (auto simp: RevConfig_update_from_dict_def stmt_Ok simp del: seq.simps)

lemma WipConfig_Ok:
  "(WipConfig_update_from_dict d r = Ok r') =
     (isinstance (dict_get d ''branch'' (wip_branch r)) TyStr
      \<and> isinstance (dict_get d ''staged'' (dict_get d ''branch'' (wip_branch r))) TyBool
      \<and> r' = r\<lparr>wip_branch := dict_get d ''branch'' (wip_branch r),
              wip_staged := dict_get d ''staged'' (dict_get d ''branch'' (wip_branch r))\<rparr>)"
  by (auto simp: WipConfig_update_from_dict_def stmt_Ok simp del: seq.simps)

lemma PrConfig_Ok:
  "(PrConfig_update_from_dict d r = Ok r') =
     (is_member (dict_get d ''eval'' (eval r)) EVAL_VALUES
      \<and> is_member (dict_get d ''checkout'' (checkout r)) CHECKOUT_VALUES
      \<and> isinstance (dict_get d ''post_result'' (post_result r)) TyBool
      \<and> r' = r\<lparr>eval := dict_get d ''eval'' (eval r),
              checkout := dict_get d ''checkout'' (checkout r),
              post_result := dict_get d ''post_result'' (post_result r)\<rparr>)"
  by (auto simp: PrConfig_update_from_dict_def stmt_Ok simp del: seq.simps)


lemma if_else_True: "(if A then B else True) = (A \<longrightarrow> B)"
  by simp

lemma Config_update_Ok:
  assumes "Config_update_from_dict re d c = Ok c'"
  shows "isinstance (dict_get d ''allow'' (allow c)) TyList
       \<and> list_all (\<lambda>v. is_member v ALLOW_VALUES) (elems (dict_get d ''allow'' (allow c)))
       \<and> isinstance (dict_get d ''build_args'' (build_args c)) TyStr
       \<and> isinstance (dict_get d ''no_shell'' (no_shell c)) TyBool
       \<and> isinstance (dict_get d ''remote'' (remote c)) TyStr
       \<and> isinstance (dict_get d ''run'' (run c)) TyStr
       \<and> isinstance (dict_get d ''sandbox'' (sandbox c)) TyBool
       \<and> isinstance (dict_get d ''skipped_packages'' (skipped_packages c)) TyList
       \<and> isinstance (dict_get d ''skipped_package_regexes'' (skipped_package_regexes c)) TyList
       \<and> \<not> isl (regex_types re (elems (dict_get d ''skipped_package_regexes'' (skipped_package_regexes c))))
       \<and> (isinstance (dict_get d ''systems'' (systems c)) TyStr
            \<or> isinstance (dict_get d ''systems'' (systems c)) TyList
              \<and> list_all (\<lambda>x. isinstance x TyStr) (elems (dict_get d ''systems'' (systems c))))
       \<and> isinstance (dict_get d ''build_graph'' (build_graph c)) TyStr
       \<and> is_member (dict_get d ''build_graph'' (build_graph c)) BUILD_GRAPH_VALUES
       \<and> isinstance (dict_get d ''print_result'' (print_result c)) TyBool
       \<and> isinstance (dict_get d ''extra_nixpkgs_config'' (extra_nixpkgs_config c)) TyStr
       \<and> isinstance (dict_get d ''num_parallel_evals'' (num_parallel_evals c)) TyInt
       \<and> positive (dict_get d ''num_parallel_evals'' (num_parallel_evals c))
       \<and> (\<exists>t r. dict_get d ''rev'' (VDict []) = VDict t
                 \<and> RevConfig_update_from_dict t (rev_config c) = Ok r)
       \<and> (\<exists>t r. dict_get d ''wip'' (VDict []) = VDict t
                 \<and> WipConfig_update_from_dict t (wip_config c) = Ok r)
       \<and> (\<exists>t r. dict_get d ''pr'' (VDict []) = VDict t
                 \<and> PrConfig_update_from_dict t (pr_config c) = Ok r)"
  using assms unfolding Config_update_from_dict_def
  apply (simp add: stmt_Ok set_skipped_Ok update_sub_Ok if_else_True del: seq.simps)
  apply (elim conjE exE)
  apply simp
  apply blast
  done


lemma dict_get_Some: "map_of d k = Some v \<Longrightarrow> dict_get d k x = v"
  by (simp add: dict_get_def)

lemma rejected_isl:
  "list_ex (rejected_pattern re) rs \<Longrightarrow> isl (regex_types re rs)"
proof (induction rs)
  case Nil
  then show ?case by simp
next
  case (Cons r rs)
  show ?case
  proof (cases "rejected_pattern re r")
    case True
    then obtain s where "r = VStr s" "re s \<noteq> None"
      by (cases r) auto
    then show ?thesis by (auto split: option.splits)
  next
    case False
    with Cons show ?thesis by (auto split: sum.splits)
  qed
qed

lemma not_positive_positive: "not_positive v \<Longrightarrow> \<not> positive v"
  by (cases v) auto

lemma wrong_type_get: "wrong_type d k ty \<Longrightarrow> \<not> isinstance (dict_get d k x) ty"
  by (auto simp: wrong_type_def dict_get_def split: option.splits)

lemma out_of_vocabulary_get: "out_of_vocabulary d k voc \<Longrightarrow> \<not> is_member (dict_get d k x) voc"
  by (auto simp: out_of_vocabulary_def dict_get_def split: option.splits)

lemma table_get:
  "dict_get d k (VDict []) = VDict t \<Longrightarrow> table d k = t"
  by (auto simp: dict_get_def table_def split: option.splits)

lemma not_a_table_get: "not_a_table d k \<Longrightarrow> dict_get d k (VDict []) \<noteq> VDict t"
  by (auto simp: not_a_table_def dict_get_def split: option.splits)

lemma wrong_typeD:
  "wrong_type d k ty \<Longrightarrow> isinstance (dict_get d k x) ty \<Longrightarrow> False"
  using wrong_type_get by blast

lemma out_of_vocabularyD:
  "out_of_vocabulary d k voc \<Longrightarrow> is_member (dict_get d k x) voc \<Longrightarrow> False"
  using out_of_vocabulary_get by blast

lemma not_a_tableD: "not_a_table d k \<Longrightarrow> dict_get d k (VDict []) = VDict t \<Longrightarrow> False"
  using not_a_table_get by blast

lemma invalid_not_Ok:
  assumes inv: "invalid_value re d" and ok: "Config_update_from_dict re d c = Ok c'"
  shows False
proof -
  note k = Config_update_Ok[OF ok]
  have k1: "isinstance (dict_get d ''allow'' (allow c)) TyList"
    and k2: "list_all (\<lambda>v. is_member v ALLOW_VALUES) (elems (dict_get d ''allow'' (allow c)))"
    and k3: "isinstance (dict_get d ''build_args'' (build_args c)) TyStr"
    and k4: "isinstance (dict_get d ''no_shell'' (no_shell c)) TyBool"
    and k5: "isinstance (dict_get d ''remote'' (remote c)) TyStr"
    and k6: "isinstance (dict_get d ''run'' (run c)) TyStr"
    and k7: "isinstance (dict_get d ''sandbox'' (sandbox c)) TyBool"
    and k8: "isinstance (dict_get d ''skipped_packages'' (skipped_packages c)) TyList"
    and k9: "isinstance (dict_get d ''skipped_package_regexes'' (skipped_package_regexes c)) TyList"
    and k10: "\<not> isl (regex_types re (elems (dict_get d ''skipped_package_regexes'' (skipped_package_regexes c))))"
    and k11: "isinstance (dict_get d ''systems'' (systems c)) TyStr
            \<or> isinstance (dict_get d ''systems'' (systems c)) TyList
              \<and> list_all (\<lambda>x. isinstance x TyStr) (elems (dict_get d ''systems'' (systems c)))"
    and k12: "isinstance (dict_get d ''build_graph'' (build_graph c)) TyStr"
    and k13: "is_member (dict_get d ''build_graph'' (build_graph c)) BUILD_GRAPH_VALUES"
    and k14: "isinstance (dict_get d ''print_result'' (print_result c)) TyBool"
    and k15: "isinstance (dict_get d ''extra_nixpkgs_config'' (extra_nixpkgs_config c)) TyStr"
    and k16: "isinstance (dict_get d ''num_parallel_evals'' (num_parallel_evals c)) TyInt"
    and k17: "positive (dict_get d ''num_parallel_evals'' (num_parallel_evals c))"
    and k18: "\<exists>t r. dict_get d ''rev'' (VDict []) = VDict t
                 \<and> RevConfig_update_from_dict t (rev_config c) = Ok r"
    and k19: "\<exists>t r. dict_get d ''wip'' (VDict []) = VDict t
                 \<and> WipConfig_update_from_dict t (wip_config c) = Ok r"
    and k20: "\<exists>t r. dict_get d ''pr'' (VDict []) = VDict t
                 \<and> PrConfig_update_from_dict t (pr_config c) = Ok r"
    using k by blast+
  from k18 obtain rt rr where rev: "dict_get d ''rev'' (VDict []) = VDict rt"
      "RevConfig_update_from_dict rt (rev_config c) = Ok rr" by (elim exE conjE)
  from k19 obtain wt wr where wip: "dict_get d ''wip'' (VDict []) = VDict wt"
      "WipConfig_update_from_dict wt (wip_config c) = Ok wr" by (elim exE conjE)
  from k20 obtain pt pr where pr: "dict_get d ''pr'' (VDict []) = VDict pt"
      "PrConfig_update_from_dict pt (pr_config c) = Ok pr" by (elim exE conjE)
  note t = table_get[OF rev(1)] table_get[OF wip(1)] table_get[OF pr(1)]
  have r1: "isinstance (dict_get rt ''branch'' (rev_branch (rev_config c))) TyStr"
    using rev(2) by (simp add: RevConfig_Ok)
  have w1: "isinstance (dict_get wt ''branch'' (wip_branch (wip_config c))) TyStr"
    and w2: "isinstance (dict_get wt ''staged'' (dict_get wt ''branch'' (wip_branch (wip_config c)))) TyBool"
    using wip(2) by (simp_all add: WipConfig_Ok)
  have p1: "is_member (dict_get pt ''eval'' (eval (pr_config c))) EVAL_VALUES"
    and p2: "is_member (dict_get pt ''checkout'' (checkout (pr_config c))) CHECKOUT_VALUES"
    and p3: "isinstance (dict_get pt ''post_result'' (post_result (pr_config c))) TyBool"
    using pr(2) by (simp_all add: PrConfig_Ok)
  have sys: "\<not> (case map_of d ''systems'' of
            None \<Rightarrow> False
          | Some v \<Rightarrow> \<not> (isinstance v TyStr
                         \<or> isinstance v TyList \<and> list_all (\<lambda>x. isinstance x TyStr) (elems v)))"
    using k11 by (cases "map_of d ''systems''") (simp_all add: dict_get_def)
  have alw: "\<not> (case map_of d ''allow'' of
            None \<Rightarrow> False
          | Some v \<Rightarrow> list_ex (\<lambda>x. \<not> is_member x ALLOW_VALUES) (elems v))"
    using k2 by (cases "map_of d ''allow''") (simp_all add: dict_get_def list_ex_iff list_all_iff)
  have par: "\<not> (case map_of d ''num_parallel_evals'' of None \<Rightarrow> False | Some v \<Rightarrow> not_positive v)"
    using k17 not_positive_positive
    by (cases "map_of d ''num_parallel_evals''") (auto simp: dict_get_def)
  have rgx: "\<not> (case map_of d ''skipped_package_regexes'' of
            None \<Rightarrow> False
          | Some v \<Rightarrow> list_ex (rejected_pattern re) (elems v))"
    using k10 rejected_isl[of re]
    by (cases "map_of d ''skipped_package_regexes''") (auto simp: dict_get_def)
  from inv show False
    unfolding invalid_value_def t
  proof (elim disjE)
  qed (use sys alw par rgx in \<open>simp_all\<close>,
       (erule wrong_typeD out_of_vocabularyD not_a_tableD,
        rule k1 k3 k4 k5 k6 k7 k8 k9 k12 k13 k14 k15 k16 r1 w1 w2 p1 p2 p3 rev(1) wip(1) pr(1))+)
qed


lemma invalid_value_Raise:
  "invalid_value re d \<Longrightarrow> \<exists>e c'. Config_update_from_dict re d c = Raise e c'"
  using invalid_not_Ok[of re d c] by (cases "Config_update_from_dict re d c") auto

lemma regex_types_good:
  "list_all (\<lambda>g. re g = None) good \<Longrightarrow> regex_types re (map VStr good) = Inr (map VPattern good)"
  by (induction good) auto

lemma regex_types_bad:
  "list_all (\<lambda>g. re g = None) good \<Longrightarrow> re s = Some msg \<Longrightarrow>
   regex_types re (map VStr good @ VStr s # rest)
     = Inl (ArgumentTypeError ([CHR 0x27] @ s @ [CHR 0x27] @ '' is not a valid regex: '' @ msg))"
  by (induction good) auto

text \<open>
  Claim C2. A file sets \<^verbatim>\<open>build_args\<close> and it replaces the default: the file layer
  works. The command-line layer does not: \<^verbatim>\<open>update_from_args\<close> raises on every call,
  so resolving never returns a configuration, whatever the file and the arguments are.
  With \<^verbatim>\<open>no_shell = false\<close> in the file and \<^verbatim>\<open>--no-shell\<close> on the command line the
  configuration still holds the file's \<^verbatim>\<open>False\<close> when the exception leaves.
\<close>

theorem cli_layer_never_applied:
  "(\<exists>e c. resolve_config nix_nom_tool re_error config_file args = Raise e c)
   \<and> Config_read_config (\<lambda>s. None)
       (Some [(''build_args'', VStr ''--keep-going''), (''wip'', VDict [(''staged'', VBool False)])])
       (Config_new ''nix'')
     = Ok ((Config_new ''nix'')\<lparr>build_args := VStr ''--keep-going''\<rparr>)
   \<and> resolve_config ''nix'' (\<lambda>s. None)
       (Some [(''no_shell'', VBool False), (''wip'', VDict [(''staged'', VBool False)])])
       \<lparr>number = [''1''], args_no_shell = True, args_post_result = False,
        args_print_result = False, args_system = []\<rparr>
     = Raise (TypeError ''Config.update_from_args() takes 1 positional argument but 2 were given'')
         ((Config_new ''nix'')\<lparr>no_shell := VBool False\<rparr>)"
proof -
  have a: "\<exists>e c. resolve_config nix_nom_tool re_error config_file args = Raise e c"
    by (cases "Config_read_config re_error config_file (Config_new nix_nom_tool)")
       (simp_all add: resolve_config_def Config_update_from_args_def)
  have b: "Config_read_config (\<lambda>s. None)
       (Some [(''build_args'', VStr ''--keep-going''), (''wip'', VDict [(''staged'', VBool False)])])
       (Config_new ''nix'')
     = Ok ((Config_new ''nix'')\<lparr>build_args := VStr ''--keep-going''\<rparr>)"
    by code_simp
  have c: "resolve_config ''nix'' (\<lambda>s. None)
       (Some [(''no_shell'', VBool False), (''wip'', VDict [(''staged'', VBool False)])])
       \<lparr>number = [''1''], args_no_shell = True, args_post_result = False,
        args_print_result = False, args_system = []\<rparr>
     = Raise (TypeError ''Config.update_from_args() takes 1 positional argument but 2 were given'')
         ((Config_new ''nix'')\<lparr>no_shell := VBool False\<rparr>)"
    by code_simp
  show ?thesis
    using a b c by blast
qed

text \<open>
  Claim C3. A document that leaves out \<^verbatim>\<open>staged\<close> of the \<^verbatim>\<open>wip\<close> table, or the whole
  table, never loads: \<^verbatim>\<open>staged\<close> falls back to \<^verbatim>\<open>self.branch\<close>, a string, and the
  boolean check that follows raises. For the empty document over the defaults the error
  is the \<^verbatim>\<open>ValueError\<close> for \<^verbatim>\<open>wip.staged\<close>, and \<^verbatim>\<open>wip.staged\<close> is left holding
  \<^verbatim>\<open>master\<close>.
\<close>

theorem missing_staged_fails_load:
  "(map_of (table d ''wip'') ''staged'' = None \<longrightarrow>
      (\<exists>e c'. Config_update_from_dict re_error d c = Raise e c'))
   \<and> Config_update_from_dict (\<lambda>s. None) [] (Config_new ''nix'')
     = Raise (ValueError
         ''Incorrect value for option 'wip.staged'.Expected '<class 'bool'>' but got '<class 'str'>'.'')
         ((Config_new ''nix'')\<lparr>wip_config :=
            \<lparr>wip_branch = VStr ''master'', wip_staged = VStr ''master''\<rparr>\<rparr>)"
proof -
  have a: "\<exists>e c'. Config_update_from_dict re_error d c = Raise e c'"
    if h: "map_of (table d ''wip'') ''staged'' = None"
  proof (cases "Config_update_from_dict re_error d c")
    case (Ok c')
    from Config_update_Ok[OF Ok] obtain wt wr
      where wip: "dict_get d ''wip'' (VDict []) = VDict wt"
        "WipConfig_update_from_dict wt (wip_config c) = Ok wr"
      by blast
    have t: "table d ''wip'' = wt"
      using wip(1) by (rule table_get)
    have g: "dict_get wt ''staged'' x = x" for x
      using h unfolding t by (simp add: dict_get_def)
    have "isinstance (dict_get wt ''branch'' (wip_branch (wip_config c))) TyStr"
      and "isinstance (dict_get wt ''branch'' (wip_branch (wip_config c))) TyBool"
      using wip(2) by (simp_all add: WipConfig_Ok g)
    then have False
      by (cases "dict_get wt ''branch'' (wip_branch (wip_config c))") simp_all
    then show ?thesis ..
  next
    case (Raise e c')
    then show ?thesis by blast
  qed
  have b: "Config_update_from_dict (\<lambda>s. None) [] (Config_new ''nix'')
     = Raise (ValueError
         ''Incorrect value for option 'wip.staged'.Expected '<class 'bool'>' but got '<class 'str'>'.'')
         ((Config_new ''nix'')\<lparr>wip_config :=
            \<lparr>wip_branch = VStr ''master'', wip_staged = VStr ''master''\<rparr>\<rparr>)"
    by code_simp
  show ?thesis
    using a b by blast
qed

theorem missing_staged_fails_load_witness:
  "\<exists>e c'. Config_update_from_dict (\<lambda>s. None)
            [(''build_args'', VStr ''--keep-going''), (''wip'', VDict [(''branch'', VStr ''main'')])]
            (Config_new ''nom'')
          = Raise e c'"
proof -
  have h: "map_of (table [(''build_args'', VStr ''--keep-going''),
                           (''wip'', VDict [(''branch'', VStr ''main'')])] ''wip'') ''staged'' = None"
    by code_simp
  show ?thesis
    using missing_staged_fails_load
      [of "[(''build_args'', VStr ''--keep-going''), (''wip'', VDict [(''branch'', VStr ''main'')])]"
          "\<lambda>s. None" "Config_new ''nom''"] h
    by blast
qed




text \<open>
  Claim C8, as stated, fails: the error of an invalid pattern names the pattern and the
  library's complaint, and nothing else. The name of the field does not occur in it.
\<close>

theorem regex_error_does_not_name_field:
  "Config_update_from_dict
     (\<lambda>s. if s = ''('' then Some ''missing ), unterminated subpattern at position 0'' else None)
     [(''skipped_package_regexes'', VList [VStr ''a.*'', VStr ''(''])] (Config_new ''nix'')
   = Raise (ArgumentTypeError
       ([CHR 0x27] @ ''('' @ [CHR 0x27]
        @ '' is not a valid regex: missing ), unterminated subpattern at position 0''))
       (Config_new ''nix'')
   \<and> \<not> sublist ''skipped_package_regexes''
       ([CHR 0x27] @ ''('' @ [CHR 0x27]
        @ '' is not a valid regex: missing ), unterminated subpattern at position 0'')"
  by code_simp

text \<open>
  Claim C8, amended. When the list under \<^verbatim>\<open>skipped_package_regexes\<close> holds a string
  that is not a regular expression, after entries that are, loading fails as a whole;
  the statement that compiles the list raises \<^verbatim>\<open>ArgumentTypeError\<close> with the text
  \<^verbatim>\<open>'<pattern>' is not a valid regex: <complaint>\<close> for the first such string, which names
  the pattern and not the field, and leaves the object as it found it. When every entry
  is a regular expression the whole list is compiled at load time and stored.
\<close>

theorem invalid_regex_fails_load:
  assumes "map_of d ''skipped_package_regexes'' = Some (VList (map VStr good @ VStr s # rest))"
    and "list_all (\<lambda>g. re_error g = None) good"
    and "re_error s = Some complaint"
    and "map_of d' ''skipped_package_regexes'' = Some (VList (map VStr good))"
  shows "(\<exists>e c'. Config_update_from_dict re_error d c = Raise e c')
       \<and> set_skipped_package_regexes re_error d c
           = Raise (ArgumentTypeError
               ([CHR 0x27] @ s @ [CHR 0x27] @ '' is not a valid regex: '' @ complaint)) c
       \<and> set_skipped_package_regexes re_error d' c
           = Ok (c\<lparr>skipped_package_regexes := VList (map VPattern good)\<rparr>)"
proof -
  have bad: "regex_types re_error (map VStr good @ VStr s # rest)
     = Inl (ArgumentTypeError ([CHR 0x27] @ s @ [CHR 0x27] @ '' is not a valid regex: '' @ complaint))"
    using assms(2,3) by (rule regex_types_bad)
  have ok: "regex_types re_error (map VStr good) = Inr (map VPattern good)"
    using assms(2) by (rule regex_types_good)
  have rej: "list_ex (rejected_pattern re_error) (map VStr good @ VStr s # rest)"
    using assms(3) by (simp add: list_ex_iff)
  have inv: "invalid_value re_error d"
    unfolding invalid_value_def using rej by (simp add: assms(1))
  have a: "\<exists>e c'. Config_update_from_dict re_error d c = Raise e c'"
    using inv by (rule invalid_value_Raise)
  have b: "set_skipped_package_regexes re_error d c
           = Raise (ArgumentTypeError
               ([CHR 0x27] @ s @ [CHR 0x27] @ '' is not a valid regex: '' @ complaint)) c"
    unfolding set_skipped_package_regexes_def
    by (simp add: dict_get_def assms(1) check_type_def bad[simplified])
  have c: "set_skipped_package_regexes re_error d' c
           = Ok (c\<lparr>skipped_package_regexes := VList (map VPattern good)\<rparr>)"
    unfolding set_skipped_package_regexes_def
    by (simp add: dict_get_def assms(4) check_type_def ok)
  show ?thesis
    using a b c by blast
qed

theorem invalid_regex_fails_load_witness:
  "(\<exists>e c'. Config_update_from_dict (\<lambda>s. if s = ''['' then Some ''unterminated character set at position 0'' else None)
              [(''skipped_package_regexes'', VList [VStr ''python.*'', VStr ''['', VStr ''ghc''])]
              (Config_new ''nix'')
            = Raise e c')
   \<and> set_skipped_package_regexes (\<lambda>s. if s = ''['' then Some ''unterminated character set at position 0'' else None)
        [(''skipped_package_regexes'', VList [VStr ''python.*'', VStr ''['', VStr ''ghc''])]
        (Config_new ''nix'')
       = Raise (ArgumentTypeError
           ([CHR 0x27] @ ''['' @ [CHR 0x27]
            @ '' is not a valid regex: unterminated character set at position 0''))
           (Config_new ''nix'')
   \<and> set_skipped_package_regexes (\<lambda>s. if s = ''['' then Some ''unterminated character set at position 0'' else None)
        [(''skipped_package_regexes'', VList [VStr ''python.*''])]
        (Config_new ''nix'')
       = Ok ((Config_new ''nix'')\<lparr>skipped_package_regexes := VList [VPattern ''python.*'']\<rparr>)"
proof -
  let ?re = "\<lambda>s. if s = ''['' then Some ''unterminated character set at position 0'' else None"
  have h1: "map_of [(''skipped_package_regexes'', VList [VStr ''python.*'', VStr ''['', VStr ''ghc''])]
              ''skipped_package_regexes''
            = Some (VList (map VStr [''python.*''] @ VStr ''['' # [VStr ''ghc'']))"
    by simp
  have h2: "list_all (\<lambda>g. ?re g = None) [''python.*'']"
    by simp
  have h3: "?re ''['' = Some ''unterminated character set at position 0''"
    by simp
  have h4: "map_of [(''skipped_package_regexes'', VList [VStr ''python.*''])]
              ''skipped_package_regexes''
            = Some (VList (map VStr [''python.*'']))"
    by simp
  show ?thesis
    using invalid_regex_fails_load[OF h1 h2 h3 h4, of "Config_new ''nix''"]
    by simp
qed

end
